theory Spec2Isabelle
  imports Complex_Main
begin

section \<open>Text\<close>

text \<open>
  A Python \<open>str\<close> is modelled as a \<^typ>\<open>string\<close> whose characters are code points
  below 256. On that range \<open>str.isspace\<close> (which decides both \<open>str.strip()\<close> and the
  class \<open>\s\<close> of a \<open>str\<close> pattern) holds of exactly the twelve characters listed in
  \<open>whitespace\<close>, the class \<open>\d\<close> is the ten ASCII digits, and \<open>str.splitlines()\<close>
  breaks at the eight characters of \<open>linebreaks\<close> (with \<open>\r\n\<close> counting once).
\<close>

definition whitespace :: "char list" where
  "whitespace = [CHR 0x09, CHR 0x0A, CHR 0x0B, CHR 0x0C, CHR 0x0D,
                 CHR 0x1C, CHR 0x1D, CHR 0x1E, CHR 0x1F, CHR 0x20, CHR 0x85, CHR 0xA0]"

definition is_space :: "char \<Rightarrow> bool" where
  "is_space c = (c \<in> set whitespace)"

definition is_digit :: "char \<Rightarrow> bool" where
  "is_digit c = (c \<in> set ''0123456789'')"

definition is_dot :: "char \<Rightarrow> bool" where
  \<comment> \<open>\<open>.\<close> without the DOTALL flag: anything but a newline\<close>
  "is_dot c = (c \<noteq> CHR 0x0A)"

definition strip :: "string \<Rightarrow> string" where
  \<comment> \<open>\<open>str.strip()\<close>\<close>
  "strip s = rev (dropWhile is_space (rev (dropWhile is_space s)))"

definition ljust :: "nat \<Rightarrow> string \<Rightarrow> string" where
  \<comment> \<open>the format specification \<open>:<n\<close>\<close>
  "ljust n s = s @ replicate (n - length s) CHR '' ''"

definition rjust :: "nat \<Rightarrow> string \<Rightarrow> string" where
  \<comment> \<open>the format specification \<open>:>n\<close>\<close>
  "rjust n s = replicate (n - length s) CHR '' '' @ s"

definition linebreaks :: "char list" where
  "linebreaks = [CHR 0x0A, CHR 0x0B, CHR 0x0C, CHR 0x0D, CHR 0x1C, CHR 0x1D, CHR 0x1E, CHR 0x85]"

fun splitlines_from :: "string \<Rightarrow> string \<Rightarrow> string list" where
  "splitlines_from cur [] = (if cur = [] then [] else [cur])"
| "splitlines_from cur (c # cs) =
     (if c = CHR 0x0D \<and> cs \<noteq> [] \<and> hd cs = CHR 0x0A then cur # splitlines_from [] (tl cs)
      else if c \<in> set linebreaks then cur # splitlines_from [] cs
      else splitlines_from (cur @ [c]) cs)"

definition splitlines :: "string \<Rightarrow> string list" where
  \<comment> \<open>\<open>str.splitlines()\<close>\<close>
  "splitlines s = splitlines_from [] s"

fun startswith :: "string \<Rightarrow> string \<Rightarrow> bool" where
  "startswith s [] = True"
| "startswith [] (p # ps) = False"
| "startswith (c # cs) (p # ps) = (c = p \<and> startswith cs ps)"

fun str_contains :: "string \<Rightarrow> string \<Rightarrow> bool" where
  \<comment> \<open>\<open>t in s\<close> for two strings: \<open>t\<close> occurs in \<open>s\<close> as a substring\<close>
  "str_contains [] t = (t = [])"
| "str_contains (c # cs) t = (startswith (c # cs) t \<or> str_contains cs t)"

fun split_slash :: "string \<Rightarrow> string \<Rightarrow> string list" where
  \<comment> \<open>\<open>s.split("/")\<close>, with the part read so far as first argument\<close>
  "split_slash cur [] = [cur]"
| "split_slash cur (c # cs) =
     (if c = CHR ''/'' then cur # split_slash [] cs else split_slash (cur @ [c]) cs)"

fun join_slash :: "string list \<Rightarrow> string" where
  \<comment> \<open>\<open>"/".join(parts)\<close>\<close>
  "join_slash [] = []"
| "join_slash [p] = p"
| "join_slash (p # q # ps) = p @ CHR ''/'' # join_slash (q # ps)"

definition path_str :: "string \<Rightarrow> string" where
  \<comment> \<open>\<open>str(pathlib.Path(a))\<close> on a POSIX system: empty parts and the part \<open>.\<close> are
      dropped, the slashes at the start become one (two, when there are exactly two), and
      the empty path is \<open>.\<close>\<close>
  "path_str a =
     (let slashes = length (takeWhile (\<lambda>c. c = CHR ''/'') a);
          root = (if slashes = 0 then [] else if slashes = 2 then ''//'' else ''/'');
          parts = filter (\<lambda>p. p \<noteq> [] \<and> p \<noteq> ''.'') (split_slash [] a);
          text = root @ join_slash parts
      in if text = [] then ''.'' else text)"

section \<open>The regular expression \<open>device_matcher_\<close>\<close>

text \<open>A constant keeps the name it has in \<open>main.py\<close> without the trailing underscore.\<close>

text \<open>
  The pattern of \<open>device_matcher_\<close> is a sequence of literal characters and of quantified
  character classes, some of them capturing. \<open>fullmatch\<close> below is the backtracking
  matcher of Python's \<open>re\<close> on such sequences: a greedy quantifier tries the longest
  repetition first, a lazy one the shortest, and the first alternative under which the
  rest of the pattern reaches the end of the string wins. Under \<open>fullmatch\<close> the anchors
  \<open>^\<close> and \<open>$\<close> of the pattern add nothing (the match starts at 0 and ends at the end of
  the string), so they have no item. The result is the list of captured groups, group
  \<open>n\<close> at index \<open>n - 1\<close>.
\<close>

datatype greed = Greedy | Lazy

datatype item = Lit char | Rep "char \<Rightarrow> bool" nat greed bool

fun first_some :: "('a \<Rightarrow> 'b option) \<Rightarrow> 'a list \<Rightarrow> 'b option" where
  "first_some f [] = None"
| "first_some f (x # xs) = (case f x of Some y \<Rightarrow> Some y | None \<Rightarrow> first_some f xs)"

fun fullmatch :: "item list \<Rightarrow> string \<Rightarrow> string list option" where
  "fullmatch [] s = (if s = [] then Some [] else None)"
| "fullmatch (Lit c # ps) s =
     (case s of [] \<Rightarrow> None | x # xs \<Rightarrow> if x = c then fullmatch ps xs else None)"
| "fullmatch (Rep cls lo g cap # ps) s =
     (let hi = length (takeWhile cls s);
          ks = (case g of Lazy \<Rightarrow> [lo..<Suc hi] | Greedy \<Rightarrow> rev [lo..<Suc hi])
      in first_some
           (\<lambda>k. case fullmatch ps (drop k s) of
                  None \<Rightarrow> None
                | Some gs \<Rightarrow> Some (if cap then take k s # gs else gs))
           ks)"

definition lits :: "string \<Rightarrow> item list" where
  "lits s = map Lit s"

definition device_matcher :: "item list" where
  \<comment> \<open>\<open>^(.+?)\s+id:\s+(\d+)\s+type:\s+(.*?)\s*$\<close>\<close>
  "device_matcher =
     [Rep is_dot 1 Lazy True, Rep is_space 1 Greedy False] @ lits ''id:'' @
     [Rep is_space 1 Greedy False, Rep is_digit 1 Greedy True, Rep is_space 1 Greedy False] @
     lits ''type:'' @
     [Rep is_space 1 Greedy False, Rep is_dot 0 Lazy True, Rep is_space 0 Greedy False]"

section \<open>The outside world\<close>

text \<open>
  The script talks to three things: the external tool \<open>xsetwacom\<close> through
  \<open>subprocess.run\<close>, the console through \<open>print\<close> and \<open>input\<close>. A call of
  \<open>subprocess.run\<close> is a function \<open>run\<close> from the argument vector and the state \<open>'w\<close> of
  the world (the tablet, the X server) to the outcome of the call and the next state of
  the world. The call either returns the completed process, or it raises: \<open>ValueError\<close>
  when an argument holds the character U+0000, \<open>UnicodeDecodeError\<close> when \<open>text=True\<close>
  meets output of the tool that it cannot decode, \<open>OSError\<close> when the tool cannot be
  started. The script catches none of them. What the tool does, and whether the call
  raises, is not fixed here: a theorem about \<open>run\<close> holds for every \<open>run\<close>, and a theorem
  about \<open>returning run\<close> holds for every one whose calls return.
  The script never passes \<open>check=True\<close>, so an exit status other than 0 raises nothing.
  The standard output of a call that returns is the text that \<open>text=True\<close> has decoded.
  Every call (whether it returns or raises), every printed text and every prompt is
  appended to a trace.
  The lines that \<open>input\<close> will read are a list; \<open>input\<close> at its end raises \<open>EOFError\<close>.
\<close>

record completed_process =
  returncode :: int
  stdout :: string

datatype event = Run "string list" | Print string | Input string

record 'w state =
  world :: 'w
  stdin :: "string list"
  trace :: "event list"

datatype error =
  TypeError | IndexError | KeyError | EOFError | ValueError | UnicodeDecodeError | OSError
  | OutsideModel

type_synonym 'w tool = "string list \<Rightarrow> 'w \<Rightarrow> (error + completed_process) \<times> 'w"

type_synonym 'w returning_tool = "string list \<Rightarrow> 'w \<Rightarrow> completed_process \<times> 'w"

definition returning :: "'w returning_tool \<Rightarrow> 'w tool" where
  \<comment> \<open>a tool on which every call returns\<close>
  "returning run argv w = (case run argv w of (p, w') \<Rightarrow> (Inr p, w'))"

definition subprocess_run ::
  "'w tool \<Rightarrow> string list \<Rightarrow> 'w state \<Rightarrow> (error + completed_process) \<times> 'w state" where
  "subprocess_run run argv st =
     (case run argv (world st) of
        (r, w') \<Rightarrow> (r, st\<lparr>world := w', trace := trace st @ [Run argv]\<rparr>))"

definition print :: "string \<Rightarrow> 'w state \<Rightarrow> 'w state" where
  "print s st = st\<lparr>trace := trace st @ [Print s]\<rparr>"

definition bind_keywords :: "string list \<Rightarrow> string list \<Rightarrow> error + unit" where
  \<comment> \<open>a call \<open>f(k1=.., k2=..)\<close> of a function without \<open>**kwargs\<close>: a keyword that is not
      a parameter of \<open>f\<close> raises \<open>TypeError\<close> before the body runs\<close>
  "bind_keywords params keywords =
     (if list_all (\<lambda>k. k \<in> set params) keywords then Inr () else Inl TypeError)"

section \<open>Device Locator: \<open>get_device_id_\<close>\<close>

definition get_device_id_params :: "string list" where
  "get_device_id_params = [''name_'', ''type_'']"

fun scan_devices :: "string \<Rightarrow> string \<Rightarrow> string list \<Rightarrow> string option" where
  \<comment> \<open>the \<open>for\<close> loop over the lines of the listing\<close>
  "scan_devices name type [] = None"
| "scan_devices name type (c # cs) =
     (case fullmatch device_matcher c of
        None \<Rightarrow> scan_devices name type cs
      | Some d \<Rightarrow>
          if d ! 0 = name \<and> d ! 2 = type then Some (d ! 1) else scan_devices name type cs)"

definition get_device_id ::
  "'w tool \<Rightarrow> string \<Rightarrow> string \<Rightarrow> 'w state \<Rightarrow> (error + string option) \<times> 'w state" where
  "get_device_id run name type st =
     (case subprocess_run run [''xsetwacom'', ''--list'', ''devices''] st of
        (Inl e, st1) \<Rightarrow> (Inl e, st1)
      | (Inr a, st1) \<Rightarrow>
          (case scan_devices name type (splitlines (stdout a)) of
             Some i \<Rightarrow> (Inr (Some i), st1)
           | None \<Rightarrow>
               (Inr None, print (''Couldn't find device: '' @ name @ '', type: '' @ type) st1)))"

section \<open>Mapping Source: \<open>find_mapping_file_\<close> and \<open>parse_mapping_file_\<close>\<close>

text \<open>
  What \<open>json.load\<close> returns: \<open>None\<close>, a \<open>bool\<close>, an \<open>int\<close>, a \<open>float\<close>, a \<open>str\<close>, a
  \<open>list\<close> or a \<open>dict\<close> (its items, one for each key).
\<close>

datatype json =
  JNull | JBool bool | JInt int | JFloat real | JStr string
  | JArr "json list" | JObj "(string \<times> json) list"

fun contains :: "json \<Rightarrow> string \<Rightarrow> error + bool" where
  \<comment> \<open>\<open>b in a\<close> for a string \<open>b\<close>: a key of a dict, an element of a list, a substring of
      a string; \<open>TypeError\<close> on a value that is no container\<close>
  "contains (JObj kvs) b = Inr (b \<in> fst ` set kvs)"
| "contains (JArr xs) b = Inr (JStr b \<in> set xs)"
| "contains (JStr s) b = Inr (str_contains s b)"
| "contains JNull b = Inl TypeError"
| "contains (JBool v) b = Inl TypeError"
| "contains (JInt v) b = Inl TypeError"
| "contains (JFloat v) b = Inl TypeError"

fun subscript :: "json \<Rightarrow> string \<Rightarrow> error + json" where
  \<comment> \<open>\<open>a[k]\<close> for a string \<open>k\<close>\<close>
  "subscript (JObj kvs) k = (case map_of kvs k of None \<Rightarrow> Inl KeyError | Some v \<Rightarrow> Inr v)"
| "subscript (JArr xs) k = Inl TypeError"
| "subscript (JStr s) k = Inl TypeError"
| "subscript JNull k = Inl TypeError"
| "subscript (JBool v) k = Inl TypeError"
| "subscript (JInt v) k = Inl TypeError"
| "subscript (JFloat v) k = Inl TypeError"

fun py_not :: "json \<Rightarrow> bool" where
  \<comment> \<open>\<open>not a\<close>\<close>
  "py_not JNull = True"
| "py_not (JBool v) = (\<not> v)"
| "py_not (JInt v) = (v = 0)"
| "py_not (JFloat v) = (v = 0)"
| "py_not (JStr s) = (s = [])"
| "py_not (JArr xs) = (xs = [])"
| "py_not (JObj kvs) = (kvs = [])"

fun missing_value :: "json \<Rightarrow> string list \<Rightarrow> 'w state \<Rightarrow> (error + json option) \<times> 'w state" where
  \<comment> \<open>the loop \<open>for _b in "name", "type", "map"\<close> and the \<open>return _a\<close> after it\<close>
  "missing_value a [] st = (Inr (Some a), st)"
| "missing_value a (b # bs) st =
     (case contains a b of
        Inl e \<Rightarrow> (Inl e, st)
      | Inr True \<Rightarrow> missing_value a bs st
      | Inr False \<Rightarrow> (Inr None, print ''Map file is missing value: {_b}'' st))"

definition parse_mapping_file ::
  "(string \<Rightarrow> json option) \<Rightarrow> string \<Rightarrow> 'w state \<Rightarrow> (error + json option) \<times> 'w state" where
  \<comment> \<open>\<open>load file\<close> is what \<open>open\<close> and \<open>json.load\<close> do on the file: \<open>None\<close> when either
      raises (the bare \<open>except\<close> catches everything), the value otherwise; \<open>file\<close> is the
      path that \<open>find_mapping_file_\<close> returned, printed as \<open>str\<close> gives it\<close>
  "parse_mapping_file load file st =
     (case load file of
        None \<Rightarrow> (Inr None, print (''Failed to parse file: '' @ path_str file) st)
      | Some a \<Rightarrow> missing_value a [''name'', ''type'', ''map''] st)"

definition default_map_locations :: "string \<Rightarrow> string option \<Rightarrow> string \<Rightarrow> string option list" where
  \<comment> \<open>the home directory, the environment variable \<open>MY_WACOM_KEYMAP\<close> when it is set,
      the directory of the script\<close>
  "default_map_locations home my_wacom_keymap here =
     [Some (home @ ''/.config/my-stuff/wacom-keymap.json''), my_wacom_keymap,
      Some (here @ ''/default.json'')]"

fun first_file :: "(string \<Rightarrow> bool) \<Rightarrow> string option list \<Rightarrow> 'w state \<Rightarrow> string option \<times> 'w state" where
  \<comment> \<open>the loop of \<open>find_mapping_file_\<close>; a location \<open>p\<close> stands for the path
      \<open>pathlib.Path(p)\<close> made from it, which is what \<open>is_file\<close> and \<open>load\<close> are asked about
      and what the loop returns; the text of that path is \<open>path_str p\<close>\<close>
  "first_file is_file [] st = (None, print ''No mapping file.'' st)"
| "first_file is_file (a # as) st =
     (case a of
        None \<Rightarrow> first_file is_file as st
      | Some p \<Rightarrow>
          if p = [] then first_file is_file as st
          else if is_file p then (Some p, st)
          else first_file is_file as st)"

definition find_mapping_file ::
  "(string \<Rightarrow> bool) \<Rightarrow> string + string option list \<Rightarrow> 'w state \<Rightarrow> string option \<times> 'w state" where
  \<comment> \<open>the argument is one string (\<open>Inl\<close>) or a list of locations (\<open>Inr\<close>)\<close>
  "find_mapping_file is_file map_location_list st =
     first_file is_file (case map_location_list of Inl a \<Rightarrow> [Some a] | Inr l \<Rightarrow> l) st"

section \<open>State Writer: \<open>apply_map_\<close>\<close>

text \<open>
  From here on a rule is a list of strings and the map a list of rules, as the mapping
  file format has them. A rule may be too short: \<open>_a[2]\<close> on it raises \<open>IndexError\<close>.
\<close>

definition apply_map_params :: "string list" where
  "apply_map_params = [''id_'', ''map_'']"

fun apply_map :: "'w tool \<Rightarrow> string \<Rightarrow> string list list \<Rightarrow> 'w state \<Rightarrow> (error + unit) \<times> 'w state" where
  "apply_map run id' [] st = (Inr (), st)"
| "apply_map run id' (a # as) st =
     (if length a < 3 then (Inl IndexError, st)
      else case subprocess_run run [''xsetwacom'', ''set'', id', a ! 0, a ! 1, a ! 2] st of
             (Inl e, st1) \<Rightarrow> (Inl e, st1)
           | (Inr b, st1) \<Rightarrow> apply_map run id' as st1)"

section \<open>State Reader and Checking: \<open>check_map_\<close>\<close>

definition check_map_params :: "string list" where
  "check_map_params = [''name_'', ''type_'', ''id_'', ''map_'']"

definition yes_row :: "string list \<Rightarrow> string" where
  "yes_row a =
     (let c = '' YES | '' @ ljust 6 (a ! 0) @ '' | '' @ rjust 2 (a ! 1) @ '' | '' @ ljust 25 (a ! 2)
      in if length a \<ge> 4 then c @ '' | '' @ a ! 3 else c)"

definition no_row :: "string list \<Rightarrow> string \<Rightarrow> string" where
  "no_row a out =
     ''> NO | '' @ a ! 0 @ '' '' @ a ! 1 @ '' = '' @ out @ '' | SHOULD BE: '' @ a ! 2"

fun check_rules ::
  "'w tool \<Rightarrow> string \<Rightarrow> string list list \<Rightarrow> bool \<Rightarrow> 'w state \<Rightarrow> (error + bool) \<times> 'w state" where
  \<comment> \<open>the \<open>for\<close> loop of \<open>check_map_\<close>; the flag is \<open>_m\<close>\<close>
  "check_rules run id' [] m st = (Inr m, st)"
| "check_rules run id' (a # as) m st =
     (if length a < 2 then (Inl IndexError, st)
      else case subprocess_run run [''xsetwacom'', ''get'', id', a ! 0, a ! 1] st of
             (Inl e, st1) \<Rightarrow> (Inl e, st1)
           | (Inr b, st1) \<Rightarrow>
               if length a < 3 then (Inl IndexError, st1)
               else if strip (stdout b) = strip (a ! 2)
                 then check_rules run id' as m (print (yes_row a) st1)
                 else check_rules run id' as False (print (no_row a (stdout b)) st1))"

definition check_map ::
  "'w tool \<Rightarrow> string \<Rightarrow> string \<Rightarrow> string \<Rightarrow> string list list \<Rightarrow> 'w state \<Rightarrow> (error + bool) \<times> 'w state" where
  "check_map run name type id' map' st =
     (case check_rules run id' map' True
             (print (''NAME: '' @ name @ [CHR 0x0A] @ ''TYPE: '' @ type) st) of
        (Inl e, st1) \<Rightarrow> (Inl e, st1)
      | (Inr m, st1) \<Rightarrow>
          (Inr m, print (if m = False then ''MAPPING DID NOT MATCH!'' else ''ALL GOOD!'') st1))"

section \<open>Reconciler: \<open>configure_map_\<close>\<close>

definition configure_map_params :: "string list" where
  "configure_map_params = [''name_'', ''type_'', ''id_'', ''map_'']"

definition prompt :: string where
  "prompt = [CHR 0x0A] @ ''Would you like to apply this map? (y/n): ''"

definition input :: "string \<Rightarrow> 'w state \<Rightarrow> (error + string) \<times> 'w state" where
  "input p st =
     (case stdin st of
        [] \<Rightarrow> (Inl EOFError, st\<lparr>trace := trace st @ [Input p]\<rparr>)
      | l # ls \<Rightarrow> (Inr l, st\<lparr>stdin := ls, trace := trace st @ [Input p]\<rparr>))"

datatype loop_exit = Break | Return bool

lemma input_shorter:
  "input p st = (Inr b, st1) \<Longrightarrow> length (stdin st1) < length (stdin st)"
  by (auto simp: input_def split: list.splits)

function ask ::
  "'w tool \<Rightarrow> string \<Rightarrow> string \<Rightarrow> string \<Rightarrow> string list list \<Rightarrow> 'w state \<Rightarrow> (error + loop_exit) \<times> 'w state" where
  \<comment> \<open>the inner \<open>while True\<close> of \<open>configure_map_\<close>\<close>
  "ask run name type id' map' st =
     (case input prompt st of
        (Inl e, st1) \<Rightarrow> (Inl e, st1)
      | (Inr b, st1) \<Rightarrow>
          if b = ''y'' then
            (case bind_keywords apply_map_params [''id_'', ''map_'', ''name_'', ''type_''] of
               Inl e \<Rightarrow> (Inl e, st1)
             | Inr u \<Rightarrow>
                 (case apply_map run id' map' st1 of
                    (Inl e, st2) \<Rightarrow> (Inl e, st2)
                  | (Inr u, st2) \<Rightarrow> (Inr Break, st2)))
          else if b = ''n'' then (Inr (Return False), st1)
          else ask run name type id' map' st1)"
  by pat_completeness auto
termination
  by (relation "measure (\<lambda>(run, name, type, id', map', st). length (stdin st))")
     (auto dest: input_shorter [OF sym])

text \<open>
  The outer loop ends because every round reads at least one line of the input: neither
  \<open>check_map_\<close> nor \<open>apply_map_\<close> reads the input, and \<open>input\<close> consumes a line.
\<close>

lemma stdin_subprocess_run:
  "subprocess_run run argv st = (p, st1) \<Longrightarrow> stdin st1 = stdin st"
  by (auto simp: subprocess_run_def split: prod.splits)

lemma stdin_print: "stdin (print s st) = stdin st"
  by (simp add: print_def)

lemma stdin_apply_map:
  "apply_map run id' map' st = (r, st1) \<Longrightarrow> stdin st1 = stdin st"
proof (induction map' arbitrary: st)
  case Nil
  then show ?case by simp
next
  case (Cons a as)
  then show ?case
    by (auto split: if_splits prod.splits sum.splits dest: stdin_subprocess_run)
qed

lemma stdin_check_rules:
  "check_rules run id' map' m st = (r, st1) \<Longrightarrow> stdin st1 = stdin st"
proof (induction map' arbitrary: m st)
  case Nil
  then show ?case by simp
next
  case (Cons a as)
  show ?case
  proof (cases "length a < 2")
    case True
    with Cons.prems show ?thesis by simp
  next
    case False
    obtain x st' where run: "subprocess_run run [''xsetwacom'', ''get'', id', a ! 0, a ! 1] st = (x, st')"
      by (cases "subprocess_run run [''xsetwacom'', ''get'', id', a ! 0, a ! 1] st")
    then have st': "stdin st' = stdin st"
      by (rule stdin_subprocess_run)
    show ?thesis
    proof (cases x)
      case (Inl e)
      with Cons.prems False run st' show ?thesis by simp
    next
      case (Inr b)
      with Cons.prems False run have
        "length a < 3 \<and> st1 = st'
         \<or> check_rules run id' as m (print (yes_row a) st') = (r, st1)
         \<or> check_rules run id' as False (print (no_row a (stdout b)) st') = (r, st1)"
        by (auto split: if_splits)
      with Cons.IH st' show ?thesis
        by (auto simp: stdin_print)
    qed
  qed
qed

lemma stdin_check_map:
  "check_map run name type id' map' st = (r, st1) \<Longrightarrow> stdin st1 = stdin st"
  by (auto simp: check_map_def stdin_print split: prod.splits sum.splits
           dest!: stdin_check_rules)

declare ask.simps [simp del]

lemma ask_shorter:
  "ask run name type id' map' st = (Inr x, st1) \<Longrightarrow> length (stdin st1) < length (stdin st)"
proof (induction run name type id' map' st rule: ask.induct)
  case (1 run name type id' map' st)
  obtain r st' where inp: "input prompt st = (r, st')"
    by (cases "input prompt st")
  show ?case
  proof (cases r)
    case (Inl e)
    with "1.prems" inp show ?thesis by (simp add: ask.simps)
  next
    case (Inr b)
    with inp have less: "length (stdin st') < length (stdin st)"
      by (auto dest: input_shorter)
    consider "b = ''y''" | "b = ''n''" | "b \<noteq> ''y''" "b \<noteq> ''n''"
      by blast
    then show ?thesis
    proof cases
      case 1
      with "1.prems" inp Inr less show ?thesis
        by (auto simp: ask.simps [of _ _ _ _ _ st] split: sum.splits prod.splits
                 dest: stdin_apply_map)
    next
      case 2
      with "1.prems" inp Inr less show ?thesis
        by (auto simp: ask.simps [of _ _ _ _ _ st])
    next
      case 3
      with "1.prems" inp Inr have "ask run name type id' map' st' = (Inr x, st1)"
        by (simp add: ask.simps [of _ _ _ _ _ st])
      with "1.IH" [OF inp [symmetric] Inr 3] less show ?thesis
        by simp
    qed
  qed
qed

function configure_map ::
  "'w tool \<Rightarrow> string \<Rightarrow> string \<Rightarrow> string \<Rightarrow> string list list \<Rightarrow> 'w state \<Rightarrow> (error + bool) \<times> 'w state" where
  "configure_map run name type id' map' st =
     (case bind_keywords check_map_params [''id_'', ''map_'', ''name_'', ''type_''] of
        Inl e \<Rightarrow> (Inl e, st)
      | Inr u \<Rightarrow>
          (case check_map run name type id' map' st of
             (Inl e, st1) \<Rightarrow> (Inl e, st1)
           | (Inr a, st1) \<Rightarrow>
               if a = True then (Inr True, st1)
               else
                 (case ask run name type id' map' st1 of
                    (Inl e, st2) \<Rightarrow> (Inl e, st2)
                  | (Inr (Return r), st2) \<Rightarrow> (Inr r, st2)
                  | (Inr Break, st2) \<Rightarrow> configure_map run name type id' map' st2)))"
  by pat_completeness auto
termination
proof (relation "measure (\<lambda>(run, name, type, id', map', st). length (stdin st))", goal_cases)
  case 1
  show ?case by simp
next
  case (2 run name type id' map' st u x st1 a r st2 xa)
  then have "stdin st1 = stdin st" and "length (stdin st2) < length (stdin st1)"
    by (auto dest: stdin_check_map [OF sym] ask_shorter [OF sym])
  then show ?case by simp
qed

declare configure_map.simps [simp del]

section \<open>The script\<close>

text \<open>
  The functions above take the device name, the device type and the rules with the types
  the mapping file format gives them: two strings and a list of lists of strings. A
  document that has the three keys with values of other types is outside this model;
  where the script would pass such a value on, the model ends with \<open>OutsideModel\<close>.
\<close>

fun as_str :: "json \<Rightarrow> string option" where
  "as_str (JStr s) = Some s"
| "as_str j = None"

fun as_rule :: "json \<Rightarrow> string list option" where
  "as_rule (JArr xs) = those (map as_str xs)"
| "as_rule j = None"

fun as_rules :: "json \<Rightarrow> string list list option" where
  "as_rules (JArr xs) = those (map as_rule xs)"
| "as_rules j = None"

datatype outcome = Exited | Finished

definition script ::
  "bool \<Rightarrow> string option \<Rightarrow> string option list \<Rightarrow> (string \<Rightarrow> bool) \<Rightarrow> (string \<Rightarrow> json option)
     \<Rightarrow> 'w tool \<Rightarrow> 'w state \<Rightarrow> (error + outcome) \<times> 'w state" where
  \<comment> \<open>\<open>which\<close>: \<open>shutil.which\<close> finds the tool; \<open>arg\<close>: the optional argument of the
      command line; \<open>locations\<close>: the value of \<open>default_map_locations_\<close>; \<open>is_file\<close> and
      \<open>load\<close>: the file system\<close>
  "script which arg locations is_file load run st =
     (if \<not> which then (Inr Exited, print ''Couldn't find executable: xsetwacom'' st)
      else
        case find_mapping_file is_file (case arg of Some f \<Rightarrow> Inl f | None \<Rightarrow> Inr locations) st of
          (None, st1) \<Rightarrow> (Inr Exited, st1)
        | (Some file, st1) \<Rightarrow>
            (case parse_mapping_file load file st1 of
               (Inl e, st2) \<Rightarrow> (Inl e, st2)
             | (Inr None, st2) \<Rightarrow> (Inr Exited, st2)
             | (Inr (Some dict), st2) \<Rightarrow>
                 if py_not dict then (Inr Exited, st2)
                 else
                   (case subscript dict ''name'' of
                      Inl e \<Rightarrow> (Inl e, st2)
                    | Inr n \<Rightarrow>
                   (case subscript dict ''type'' of
                      Inl e \<Rightarrow> (Inl e, st2)
                    | Inr t \<Rightarrow>
                   (case (as_str n, as_str t) of
                      (Some name, Some type) \<Rightarrow>
                        (case bind_keywords get_device_id_params [''name_'', ''type_''] of
                           Inl e \<Rightarrow> (Inl e, st2)
                         | Inr u \<Rightarrow>
                        (case get_device_id run name type st2 of
                           (Inl e, st3) \<Rightarrow> (Inl e, st3)
                         | (Inr None, st3) \<Rightarrow> (Inr Exited, st3)
                         | (Inr (Some id'), st3) \<Rightarrow>
                             if id' = [] then (Inr Exited, st3)
                             else
                               (case subscript dict ''map'' of
                                  Inl e \<Rightarrow> (Inl e, st3)
                                | Inr m \<Rightarrow>
                               (case as_rules m of
                                  None \<Rightarrow> (Inl OutsideModel, st3)
                                | Some map' \<Rightarrow>
                               (case bind_keywords configure_map_params
                                       [''id_'', ''map_'', ''name_'', ''type_''] of
                                  Inl e \<Rightarrow> (Inl e, st3)
                                | Inr u \<Rightarrow>
                                    (case configure_map run name type id' map' st3 of
                                       (Inl e, st4) \<Rightarrow> (Inl e, st4)
                                     | (Inr r, st4) \<Rightarrow> (Inr Finished, st4)))))))
                    | _ \<Rightarrow> (Inl OutsideModel, st2))))))"

section \<open>Observing a run\<close>

text \<open>
  What the claims speak of, read off a trace and off the tool: the external calls, the
  printed texts and the prompts of a trace, in order; the values the State Reader returns
  for the rules during one Checking pass that starts in the world \<open>w\<close>; whether all of
  them match; and the row a Checking pass prints for a rule.
\<close>

fun runs :: "event list \<Rightarrow> string list list" where
  "runs [] = []"
| "runs (Run argv # es) = argv # runs es"
| "runs (Print s # es) = runs es"
| "runs (Input p # es) = runs es"

fun prints :: "event list \<Rightarrow> string list" where
  "prints [] = []"
| "prints (Print s # es) = s # prints es"
| "prints (Run argv # es) = prints es"
| "prints (Input p # es) = prints es"

fun prompts :: "event list \<Rightarrow> string list" where
  "prompts [] = []"
| "prompts (Input p # es) = p # prompts es"
| "prompts (Run argv # es) = prompts es"
| "prompts (Print s # es) = prompts es"

fun observed :: "'w returning_tool \<Rightarrow> string \<Rightarrow> string list list \<Rightarrow> 'w \<Rightarrow> string list" where
  "observed run id' [] w = []"
| "observed run id' (a # as) w =
     (case run [''xsetwacom'', ''get'', id', a ! 0, a ! 1] w of
        (b, w') \<Rightarrow> stdout b # observed run id' as w')"

definition all_match :: "'w returning_tool \<Rightarrow> string \<Rightarrow> string list list \<Rightarrow> 'w \<Rightarrow> bool" where
  "all_match run id' map' w =
     list_all2 (\<lambda>out a. strip out = strip (a ! 2)) (observed run id' map' w) map'"

definition row :: "string \<Rightarrow> string list \<Rightarrow> string" where
  "row out a = (if strip out = strip (a ! 2) then yes_row a else no_row a out)"

definition header :: "string \<Rightarrow> string \<Rightarrow> string" where
  "header name type = ''NAME: '' @ name @ [CHR 0x0A] @ ''TYPE: '' @ type"

definition verdict :: "bool \<Rightarrow> string" where
  "verdict m = (if m then ''ALL GOOD!'' else ''MAPPING DID NOT MATCH!'')"



text \<open>
  Two stand-ins for the tool in the concrete instances below (they are no part of
  \<open>main.py\<close>). For \<open>xsetwacom\<close> the world is the list of the settings made so far, \<open>get\<close>
  prints the value of a setting and fails without output on one that was never made,
  \<open>set\<close> makes one, and the listing is fixed. On \<open>undecodable\<close> every call raises
  \<open>UnicodeDecodeError\<close>, as on a tool whose output is no text in the encoding of the
  locale.
\<close>

type_synonym tablet = "((string \<times> string) \<times> string) list"

definition xsetwacom :: "string \<Rightarrow> tablet returning_tool" where
  "xsetwacom listing argv w =
     (if argv ! 1 = ''--list'' then (\<lparr>returncode = 0, stdout = listing\<rparr>, w)
      else if argv ! 1 = ''get'' then
        (case map_of w (argv ! 3, argv ! 4) of
           Some v \<Rightarrow> (\<lparr>returncode = 0, stdout = v\<rparr>, w)
         | None \<Rightarrow> (\<lparr>returncode = 1, stdout = []\<rparr>, w))
      else (\<lparr>returncode = 0, stdout = []\<rparr>, ((argv ! 3, argv ! 4), argv ! 5) # w))"


definition listing :: string where
  \<comment> \<open>a listing of four lines\<close>
  "listing = ''garbage'' @ [CHR 0x0A] @ ''pad a  id: 3  type: PAD'' @ [CHR 0x0A]
     @ ''Pad A  id: 12  type: PAD  '' @ [CHR 0x0A] @ ''Pad A id: 13 type: PAD'' @ [CHR 0x0A]"

definition listing_X :: string where
  \<comment> \<open>the listing of the end-to-end scenario: one line, the device \<open>X\<close> of type \<open>PAD\<close>\<close>
  "listing_X = ''X  id: 7  type: PAD'' @ [CHR 0x0A]"

definition keymap :: json where
  \<comment> \<open>the mapping document of the end-to-end scenario\<close>
  "keymap = JObj [(''name'', JStr ''X''), (''type'', JStr ''PAD''),
                  (''map'', JArr [JArr [JStr ''Button'', JStr ''1'', JStr ''key a'']])]"

section \<open>Facts about the matcher\<close>

lemma first_some_Some:
  "first_some f xs = Some y \<Longrightarrow> \<exists>x \<in> set xs. f x = Some y"
  by (induction xs) (auto split: option.splits)

lemma fullmatch_groups:
  "fullmatch ps s = Some gs \<Longrightarrow>
     length gs = length (filter (\<lambda>p. case p of Lit c \<Rightarrow> False | Rep cls lo g cap \<Rightarrow> cap) ps)"
proof (induction ps s arbitrary: gs rule: fullmatch.induct)
  case (1 s)
  then show ?case by (simp split: if_splits)
next
  case (2 c ps s)
  then show ?case by (auto split: list.splits if_splits)
next
  case (3 cls lo g cap ps s)
  from "3.prems" obtain k where
    k: "(case fullmatch ps (drop k s) of None \<Rightarrow> None
         | Some gs' \<Rightarrow> Some (if cap then take k s # gs' else gs')) = Some gs"
    by (auto simp: Let_def dest!: first_some_Some)
  then obtain gs' where gs': "fullmatch ps (drop k s) = Some gs'"
    and gs: "gs = (if cap then take k s # gs' else gs')"
    by (auto split: option.splits)
  from "3.IH" gs' have "length gs' =
      length (filter (\<lambda>p. case p of Lit c \<Rightarrow> False | Rep cls lo g cap \<Rightarrow> cap) ps)"
    by blast
  with gs show ?case by simp
qed

lemma device_matcher_groups:
  "fullmatch device_matcher c = Some d \<Longrightarrow> length d = 3"
  by (drule fullmatch_groups) (simp add: device_matcher_def lits_def)

section \<open>Facts about the loops\<close>

lemma runs_append: "runs (xs @ ys) = runs xs @ runs ys"
  by (induction xs rule: runs.induct) simp_all

lemma trace_subprocess_run:
  "subprocess_run run argv st = (p, st1) \<Longrightarrow> trace st1 = trace st @ [Run argv]"
  by (auto simp: subprocess_run_def split: prod.splits)

lemma set_argv_take3:
  "3 \<le> length (a :: string list) \<Longrightarrow> [a ! 0, a ! 1, a ! 2] = take 3 a"
  by (cases a; cases "tl a"; cases "tl (tl a)") auto

lemma subprocess_run_eq:
  "subprocess_run (returning run) argv st =
     (Inr (fst (run argv (world st))),
      st\<lparr>world := snd (run argv (world st)), trace := trace st @ [Run argv]\<rparr>)"
  by (simp add: subprocess_run_def returning_def split: prod.splits)

lemma apply_map_eq:
  "\<forall>a \<in> set map'. 3 \<le> length a \<Longrightarrow>
     apply_map (returning run) id' map' st =
       (Inr (),
        st\<lparr>world := foldl (\<lambda>w a. snd (run ([''xsetwacom'', ''set'', id'] @ take 3 a) w))
                       (world st) map',
           trace := trace st @ map (\<lambda>a. Run ([''xsetwacom'', ''set'', id'] @ take 3 a)) map'\<rparr>)"
proof (induction map' arbitrary: st)
  case Nil
  then show ?case by simp
next
  case (Cons a as)
  then have a: "3 \<le> length a" and as: "\<forall>a \<in> set as. 3 \<le> length a"
    by simp_all
  from a have argv: "[''xsetwacom'', ''set'', id', a ! 0, a ! 1, a ! 2]
      = [''xsetwacom'', ''set'', id'] @ take 3 a"
    using set_argv_take3 [of a] by simp
  from a have "apply_map (returning run) id' (a # as) st =
      apply_map (returning run) id' as
        (st\<lparr>world := snd (run ([''xsetwacom'', ''set'', id'] @ take 3 a) (world st)),
            trace := trace st @ [Run ([''xsetwacom'', ''set'', id'] @ take 3 a)]\<rparr>)"
    by (simp only: apply_map.simps argv subprocess_run_eq) simp
  then show ?case
    by (simp add: Cons.IH [OF as])
qed

lemma apply_map_label:
  "apply_map run id' (map (take 3) map') st = apply_map run id' map' st"
proof (induction map' arbitrary: st)
  case Nil
  then show ?case by simp
next
  case (Cons a as)
  then show ?case by (auto split: prod.splits sum.splits)
qed

lemma scan_devices_filter:
  "scan_devices name type (filter (\<lambda>c. fullmatch device_matcher c \<noteq> None) cs)
     = scan_devices name type cs"
  by (induction cs) (auto split: option.splits)

lemma groups_eq:
  "fullmatch device_matcher c = Some d \<Longrightarrow> d = [d ! 0, d ! 1, d ! 2]"
  by (drule device_matcher_groups, cases d; cases "tl d"; cases "tl (tl d)") auto

lemma scan_devices_Cons:
  "scan_devices name type (c # cs) =
     (if \<exists>i. fullmatch device_matcher c = Some [name, i, type]
      then Some (the (fullmatch device_matcher c) ! 1)
      else scan_devices name type cs)"
proof (cases "fullmatch device_matcher c")
  case None
  then show ?thesis by simp
next
  case (Some d)
  from groups_eq [OF Some] have "(d ! 0 = name \<and> d ! 2 = type) = (\<exists>i. d = [name, i, type])"
    by (metis nth_Cons_0 nth_Cons_Suc numeral_2_eq_2)
  with Some show ?thesis by simp
qed

lemma scan_devices_Some:
  "scan_devices name type cs = Some i \<longleftrightarrow>
     (\<exists>pre c post. cs = pre @ c # post \<and> fullmatch device_matcher c = Some [name, i, type] \<and>
        (\<forall>x \<in> set pre. \<forall>i'. fullmatch device_matcher x \<noteq> Some [name, i', type]))"
proof (induction cs)
  case Nil
  then show ?case by simp
next
  case (Cons c cs)
  show ?case
  proof (cases "\<exists>i. fullmatch device_matcher c = Some [name, i, type]")
    case True
    then obtain i0 where i0: "fullmatch device_matcher c = Some [name, i0, type]" by blast
    then have l: "scan_devices name type (c # cs) = Some i0"
      by (simp only: scan_devices_Cons) auto
    show ?thesis
    proof
      assume "scan_devices name type (c # cs) = Some i"
      with l have "i = i0" by simp
      with i0 have "c # cs = [] @ c # cs \<and> fullmatch device_matcher c = Some [name, i, type]
          \<and> (\<forall>x \<in> set []. \<forall>i'. fullmatch device_matcher x \<noteq> Some [name, i', type])"
        by simp
      then show "\<exists>pre c' post. c # cs = pre @ c' # post \<and>
          fullmatch device_matcher c' = Some [name, i, type] \<and>
          (\<forall>x \<in> set pre. \<forall>i'. fullmatch device_matcher x \<noteq> Some [name, i', type])"
        by blast
    next
      assume "\<exists>pre c' post. c # cs = pre @ c' # post \<and>
          fullmatch device_matcher c' = Some [name, i, type] \<and>
          (\<forall>x \<in> set pre. \<forall>i'. fullmatch device_matcher x \<noteq> Some [name, i', type])"
      then obtain pre c' post where d: "c # cs = pre @ c' # post"
        and m: "fullmatch device_matcher c' = Some [name, i, type]"
        and n: "\<forall>x \<in> set pre. \<forall>i'. fullmatch device_matcher x \<noteq> Some [name, i', type]"
        by blast
      have "pre = []"
      proof (cases pre)
        case Nil
        then show ?thesis .
      next
        case (Cons p ps)
        with d have "p = c" by simp
        with n Cons i0 show ?thesis by auto
      qed
      with d m i0 have "i = i0" by simp
      with l show "scan_devices name type (c # cs) = Some i" by simp
    qed
  next
    case False
    then have l: "scan_devices name type (c # cs) = scan_devices name type cs"
      by (simp only: scan_devices_Cons) auto
    show ?thesis
    proof
      assume "scan_devices name type (c # cs) = Some i"
      with l Cons.IH obtain pre c' post where "cs = pre @ c' # post"
        and "fullmatch device_matcher c' = Some [name, i, type]"
        and "\<forall>x \<in> set pre. \<forall>i'. fullmatch device_matcher x \<noteq> Some [name, i', type]"
        by auto
      with False have "c # cs = (c # pre) @ c' # post \<and>
          fullmatch device_matcher c' = Some [name, i, type] \<and>
          (\<forall>x \<in> set (c # pre). \<forall>i'. fullmatch device_matcher x \<noteq> Some [name, i', type])"
        by auto
      then show "\<exists>pre c' post. c # cs = pre @ c' # post \<and>
          fullmatch device_matcher c' = Some [name, i, type] \<and>
          (\<forall>x \<in> set pre. \<forall>i'. fullmatch device_matcher x \<noteq> Some [name, i', type])"
        by blast
    next
      assume "\<exists>pre c' post. c # cs = pre @ c' # post \<and>
          fullmatch device_matcher c' = Some [name, i, type] \<and>
          (\<forall>x \<in> set pre. \<forall>i'. fullmatch device_matcher x \<noteq> Some [name, i', type])"
      then obtain pre c' post where d: "c # cs = pre @ c' # post"
        and m: "fullmatch device_matcher c' = Some [name, i, type]"
        and n: "\<forall>x \<in> set pre. \<forall>i'. fullmatch device_matcher x \<noteq> Some [name, i', type]"
        by blast
      from d m False obtain ps where ps: "pre = c # ps" and cs: "cs = ps @ c' # post"
        by (cases pre) auto
      with n have "\<forall>x \<in> set ps. \<forall>i'. fullmatch device_matcher x \<noteq> Some [name, i', type]"
        by simp
      with cs m Cons.IH have "scan_devices name type cs = Some i" by blast
      with l show "scan_devices name type (c # cs) = Some i" by simp
    qed
  qed
qed

lemma scan_devices_None:
  "scan_devices name type cs = None \<longleftrightarrow>
     (\<forall>c \<in> set cs. \<forall>i. fullmatch device_matcher c \<noteq> Some [name, i, type])"
proof (induction cs)
  case Nil
  then show ?case by simp
next
  case (Cons c cs)
  then show ?case
    by (simp only: scan_devices_Cons) auto
qed

lemma prints_append: "prints (xs @ ys) = prints xs @ prints ys"
  by (induction xs rule: prints.induct) simp_all

lemma prompts_append: "prompts (xs @ ys) = prompts xs @ prompts ys"
  by (induction xs rule: prompts.induct) simp_all


lemma check_rules_result:
  "\<forall>a \<in> set map'. 3 \<le> length a \<Longrightarrow>
     fst (check_rules (returning run) id' map' m st) = Inr (m \<and> all_match run id' map' (world st))"
proof (induction map' arbitrary: m st)
  case Nil
  then show ?case by (simp add: all_match_def)
next
  case (Cons a as)
  then show ?case
    by (auto simp: all_match_def subprocess_run_eq print_def split: prod.splits)
qed

lemma check_rules_runs:
  "\<forall>a \<in> set map'. 3 \<le> length a \<Longrightarrow>
     runs (trace (snd (check_rules (returning run) id' map' m st))) =
       runs (trace st) @ map (\<lambda>a. [''xsetwacom'', ''get'', id', a ! 0, a ! 1]) map'"
proof (induction map' arbitrary: m st)
  case Nil
  then show ?case by simp
next
  case (Cons a as)
  then show ?case
    by (auto simp: subprocess_run_eq print_def runs_append split: prod.splits)
qed

lemma check_rules_prints:
  "\<forall>a \<in> set map'. 3 \<le> length a \<Longrightarrow>
     prints (trace (snd (check_rules (returning run) id' map' m st))) =
       prints (trace st) @ map2 row (observed run id' map' (world st)) map'"
proof (induction map' arbitrary: m st)
  case Nil
  then show ?case by simp
next
  case (Cons a as)
  then show ?case
    by (auto simp: subprocess_run_eq print_def prints_append row_def split: prod.splits)
qed

lemma check_rules_prompts:
  "prompts (trace (snd (check_rules (returning run) id' map' m st))) = prompts (trace st)"
proof (induction map' arbitrary: m st)
  case Nil
  then show ?case by simp
next
  case (Cons a as)
  then show ?case
    by (auto simp: subprocess_run_eq print_def prompts_append split: prod.splits)
qed




lemma yes_row_neq_no_row: "yes_row a \<noteq> no_row a' out"
  by (simp add: yes_row_def no_row_def Let_def)

lemma check_map_eq:
  assumes "\<forall>a \<in> set map'. 3 \<le> length a"
  shows "check_map (returning run) name type id' map' st =
     (Inr (all_match run id' map' (world st)),
      print (verdict (all_match run id' map' (world st)))
        (snd (check_rules (returning run) id' map' True (print (header name type) st))))"
proof -
  obtain r st1 where c: "check_rules (returning run) id' map' True (print (header name type) st) = (r, st1)"
    by (cases "check_rules (returning run) id' map' True (print (header name type) st)")
  with check_rules_result [OF assms, of run id' True "print (header name type) st"]
  have "r = Inr (all_match run id' map' (world st))"
    by (simp add: print_def)
  with c show ?thesis
    by (simp add: check_map_def header_def verdict_def)
qed

lemma check_map_result:
  "\<forall>a \<in> set map'. 3 \<le> length a \<Longrightarrow>
     fst (check_map (returning run) name type id' map' st) = Inr (all_match run id' map' (world st))"
  by (simp add: check_map_eq)

lemma check_map_runs:
  "\<forall>a \<in> set map'. 3 \<le> length a \<Longrightarrow>
     runs (trace (snd (check_map (returning run) name type id' map' st))) =
       runs (trace st) @ map (\<lambda>a. [''xsetwacom'', ''get'', id', a ! 0, a ! 1]) map'"
  by (simp add: check_map_eq check_rules_runs print_def runs_append)

lemma check_map_prints:
  "\<forall>a \<in> set map'. 3 \<le> length a \<Longrightarrow>
     prints (trace (snd (check_map (returning run) name type id' map' st))) =
       prints (trace st) @ [header name type] @ map2 row (observed run id' map' (world st)) map'
       @ [verdict (all_match run id' map' (world st))]"
  by (simp add: check_map_eq check_rules_prints print_def prints_append)

lemma check_map_prompts:
  "\<forall>a \<in> set map'. 3 \<le> length a \<Longrightarrow>
     prompts (trace (snd (check_map (returning run) name type id' map' st))) = prompts (trace st)"
  by (simp add: check_map_eq print_def prompts_append check_rules_prompts)

lemma bind_check_map:
  "bind_keywords check_map_params [''id_'', ''map_'', ''name_'', ''type_''] = Inr ()"
  by (simp add: bind_keywords_def check_map_params_def)

lemma bind_apply_map:
  "bind_keywords apply_map_params [''id_'', ''map_'', ''name_'', ''type_''] = Inl TypeError"
  by (simp add: bind_keywords_def apply_map_params_def)

lemma configure_map_converged:
  assumes "\<forall>a \<in> set map'. 3 \<le> length a" and "all_match run id' map' (world st)"
  shows "configure_map (returning run) name type id' map' st
           = (Inr True, snd (check_map (returning run) name type id' map' st))"
  using assms by (subst configure_map.simps) (simp add: bind_check_map check_map_eq)

lemma ask_reprompt:
  assumes "stdin st = b # rest" and "b \<noteq> ''y''" and "b \<noteq> ''n''"
  shows "ask run name type id' map' st
           = ask run name type id' map' (st\<lparr>stdin := rest, trace := trace st @ [Input prompt]\<rparr>)"
  using assms by (subst ask.simps) (simp add: input_def)

lemma ask_n:
  assumes "stdin st = ''n'' # rest"
  shows "ask run name type id' map' st
           = (Inr (Return False), st\<lparr>stdin := rest, trace := trace st @ [Input prompt]\<rparr>)"
  using assms by (subst ask.simps) (simp add: input_def)

lemma ask_y:
  assumes "stdin st = ''y'' # rest"
  shows "ask run name type id' map' st
           = (Inl TypeError, st\<lparr>stdin := rest, trace := trace st @ [Input prompt]\<rparr>)"
  using assms by (subst ask.simps) (simp add: input_def bind_apply_map)

lemma ask_eof:
  assumes "stdin st = []"
  shows "ask run name type id' map' st = (Inl EOFError, st\<lparr>trace := trace st @ [Input prompt]\<rparr>)"
  using assms by (subst ask.simps) (simp add: input_def)

lemma ask_decline:
  assumes "stdin st = junk @ ''n'' # rest" and "\<forall>b \<in> set junk. b \<noteq> ''y'' \<and> b \<noteq> ''n''"
  shows "ask run name type id' map' st
           = (Inr (Return False),
              st\<lparr>stdin := rest, trace := trace st @ replicate (Suc (length junk)) (Input prompt)\<rparr>)"
  using assms
proof (induction junk arbitrary: st)
  case Nil
  then show ?case by (simp add: ask_n)
next
  case (Cons b junk)
  let ?st = "st\<lparr>stdin := junk @ ''n'' # rest, trace := trace st @ [Input prompt]\<rparr>"
  from Cons.prems have "ask run name type id' map' st = ask run name type id' map' ?st"
    by (intro ask_reprompt) auto
  also from Cons.prems have "\<dots> = (Inr (Return False),
      ?st\<lparr>stdin := rest, trace := trace ?st @ replicate (Suc (length junk)) (Input prompt)\<rparr>)"
    by (intro Cons.IH) auto
  finally show ?case by (simp add: replicate_append_same)
qed

lemma configure_map_decline:
  assumes "\<forall>a \<in> set map'. 3 \<le> length a" and "\<not> all_match run id' map' (world st)"
    and "stdin st = junk @ ''n'' # rest" and "\<forall>b \<in> set junk. b \<noteq> ''y'' \<and> b \<noteq> ''n''"
  shows "configure_map (returning run) name type id' map' st
           = (Inr False,
              (snd (check_map (returning run) name type id' map' st))
                \<lparr>stdin := rest,
                 trace := trace (snd (check_map (returning run) name type id' map' st))
                          @ replicate (Suc (length junk)) (Input prompt)\<rparr>)"
proof -
  obtain c where c: "check_map (returning run) name type id' map' st = (Inr False, c)"
    using assms(1,2) check_map_result [of map' run name type id' st]
    by (cases "check_map (returning run) name type id' map' st") simp
  then have "stdin c = junk @ ''n'' # rest"
    using assms(3) by (auto dest: stdin_check_map)
  then have "ask (returning run) name type id' map' c = (Inr (Return False),
      c\<lparr>stdin := rest, trace := trace c @ replicate (Suc (length junk)) (Input prompt)\<rparr>)"
    using assms(4) by (rule ask_decline)
  with c have "configure_map (returning run) name type id' map' st = (Inr False,
      c\<lparr>stdin := rest, trace := trace c @ replicate (Suc (length junk)) (Input prompt)\<rparr>)"
    by (subst configure_map.simps) (simp add: bind_check_map)
  with c show ?thesis by simp
qed

lemma ask_accept:
  assumes "stdin st = junk @ ''y'' # rest" and "\<forall>b \<in> set junk. b \<noteq> ''y'' \<and> b \<noteq> ''n''"
  shows "ask run name type id' map' st
           = (Inl TypeError,
              st\<lparr>stdin := rest, trace := trace st @ replicate (Suc (length junk)) (Input prompt)\<rparr>)"
  using assms
proof (induction junk arbitrary: st)
  case Nil
  then show ?case by (simp add: ask_y)
next
  case (Cons b junk)
  let ?st = "st\<lparr>stdin := junk @ ''y'' # rest, trace := trace st @ [Input prompt]\<rparr>"
  from Cons.prems have "ask run name type id' map' st = ask run name type id' map' ?st"
    by (intro ask_reprompt) auto
  also from Cons.prems have "\<dots> = (Inl TypeError,
      ?st\<lparr>stdin := rest, trace := trace ?st @ replicate (Suc (length junk)) (Input prompt)\<rparr>)"
    by (intro Cons.IH) auto
  finally show ?case by (simp add: replicate_append_same)
qed

lemma configure_map_accept:
  assumes "\<forall>a \<in> set map'. 3 \<le> length a" and "\<not> all_match run id' map' (world st)"
    and "stdin st = junk @ ''y'' # rest" and "\<forall>b \<in> set junk. b \<noteq> ''y'' \<and> b \<noteq> ''n''"
  shows "configure_map (returning run) name type id' map' st
           = (Inl TypeError,
              (snd (check_map (returning run) name type id' map' st))
                \<lparr>stdin := rest,
                 trace := trace (snd (check_map (returning run) name type id' map' st))
                          @ replicate (Suc (length junk)) (Input prompt)\<rparr>)"
proof -
  obtain c where c: "check_map (returning run) name type id' map' st = (Inr False, c)"
    using assms(1,2) check_map_result [of map' run name type id' st]
    by (cases "check_map (returning run) name type id' map' st") simp
  then have "stdin c = junk @ ''y'' # rest"
    using assms(3) by (auto dest: stdin_check_map)
  then have "ask (returning run) name type id' map' c = (Inl TypeError,
      c\<lparr>stdin := rest, trace := trace c @ replicate (Suc (length junk)) (Input prompt)\<rparr>)"
    using assms(4) by (rule ask_accept)
  with c have "configure_map (returning run) name type id' map' st = (Inl TypeError,
      c\<lparr>stdin := rest, trace := trace c @ replicate (Suc (length junk)) (Input prompt)\<rparr>)"
    by (subst configure_map.simps) (simp add: bind_check_map)
  with c show ?thesis by simp
qed

section \<open>Facts about the script and the stand-in\<close>

lemma bind_get_device_id:
  "bind_keywords get_device_id_params [''name_'', ''type_''] = Inr ()"
  by (simp add: bind_keywords_def get_device_id_params_def)

lemma bind_configure_map:
  "bind_keywords configure_map_params [''id_'', ''map_'', ''name_'', ''type_''] = Inr ()"
  by (simp add: bind_keywords_def configure_map_params_def)

lemma get_device_id_eq:
  "get_device_id (returning run) name type st =
     (let a = run [''xsetwacom'', ''--list'', ''devices''] (world st);
          st1 = st\<lparr>world := snd a, trace := trace st @ [Run [''xsetwacom'', ''--list'', ''devices'']]\<rparr>
      in case scan_devices name type (splitlines (stdout (fst a))) of
           Some i \<Rightarrow> (Inr (Some i), st1)
         | None \<Rightarrow>
             (Inr None, print (''Couldn't find device: '' @ name @ '', type: '' @ type) st1))"
  by (simp add: get_device_id_def subprocess_run_eq Let_def)

lemma script_device_not_found:
  assumes "file \<noteq> []" and "is_file file" and "load file = Some (JObj kvs)"
    and "map_of kvs ''name'' = Some (JStr name)" and "map_of kvs ''type'' = Some (JStr type)"
    and "''map'' \<in> fst ` set kvs"
    and "scan_devices name type
           (splitlines (stdout (fst (run [''xsetwacom'', ''--list'', ''devices''] (world st))))) = None"
  shows "script True (Some file) locations is_file load (returning run) st =
           (Inr Exited,
            st\<lparr>world := snd (run [''xsetwacom'', ''--list'', ''devices''] (world st)),
               trace := trace st @ [Run [''xsetwacom'', ''--list'', ''devices''],
                          Print (''Couldn't find device: '' @ name @ '', type: '' @ type)]\<rparr>)"
proof -
  from assms(4,5) have keys: "''name'' \<in> fst ` set kvs" "''type'' \<in> fst ` set kvs"
    by (auto dest!: map_of_SomeD intro: rev_image_eqI)
  with assms(6) have parse: "parse_mapping_file load file st = (Inr (Some (JObj kvs)), st)"
    by (simp add: parse_mapping_file_def assms(3))
  from keys have "kvs \<noteq> []" by auto
  with parse assms show ?thesis
    by (simp add: script_def find_mapping_file_def get_device_id_eq Let_def print_def
          bind_get_device_id)
qed

lemma line1: "fullmatch device_matcher ''garbage'' = None"
  by code_simp

lemma line2: "fullmatch device_matcher ''pad a  id: 3  type: PAD'' = Some [''pad a'', ''3'', ''PAD'']"
  by code_simp

lemma line3: "fullmatch device_matcher ''Pad A  id: 12  type: PAD  '' = Some [''Pad A'', ''12'', ''PAD'']"
  by code_simp

lemma line4: "fullmatch device_matcher ''Pad A id: 13 type: PAD'' = Some [''Pad A'', ''13'', ''PAD'']"
  by code_simp

lemma splitlines_listing: "splitlines listing = [''garbage'', ''pad a  id: 3  type: PAD'', ''Pad A  id: 12  type: PAD  '', ''Pad A id: 13 type: PAD'']" 
  by (simp add: listing_def splitlines_def linebreaks_def)


lemma listing_run:
  "xsetwacom listing [''xsetwacom'', ''--list'', ''devices''] w
     = (\<lparr>returncode = 0, stdout = listing\<rparr>, w)"
  by (simp add: xsetwacom_def)

lemma strip_3: "strip ''3 '' = ''3''" "strip ''3'' = ''3''"
  by (simp_all add: strip_def is_space_def whitespace_def)

lemma strip_keys:
  "strip ''key a'' = ''key a''" "strip ''key b'' = ''key b''"
  "strip [] = []"
  by (simp_all add: strip_def is_space_def whitespace_def)

lemma check_map_key_b:
  "check_map (returning (xsetwacom l)) ''X'' ''PAD'' ''7'' [[''Button'', ''1'', ''key a'']]
       \<lparr>world = [((''Button'', ''1''), ''key b'')], stdin = i, trace = t\<rparr>
     = (Inr False,
        \<lparr>world = [((''Button'', ''1''), ''key b'')], stdin = i,
         trace = t @ [Print (header ''X'' ''PAD''), Run [''xsetwacom'', ''get'', ''7'', ''Button'', ''1''],
                  Print ''> NO | Button 1 = key b | SHOULD BE: key a'',
                  Print ''MAPPING DID NOT MATCH!'']\<rparr>)"
  by (simp add: check_map_def header_def subprocess_run_eq xsetwacom_def strip_keys print_def
        no_row_def)

lemma line_X: "fullmatch device_matcher ''X  id: 7  type: PAD'' = Some [''X'', ''7'', ''PAD'']"
  by code_simp

lemma get_device_id_X:
  "get_device_id (returning (xsetwacom listing_X)) ''X'' ''PAD''
       \<lparr>world = w, stdin = i, trace = t\<rparr>
     = (Inr (Some ''7''),
        \<lparr>world = w, stdin = i, trace = t @ [Run [''xsetwacom'', ''--list'', ''devices'']]\<rparr>)"
  by (simp add: get_device_id_eq xsetwacom_def listing_X_def splitlines_def linebreaks_def line_X)

lemma parse_keymap:
  "parse_mapping_file (\<lambda>p. Some keymap) f st = (Inr (Some keymap), st)"
  by (simp add: parse_mapping_file_def keymap_def)

lemma keymap_fields:
  "py_not keymap = False" "subscript keymap ''name'' = Inr (JStr ''X'')"
  "subscript keymap ''type'' = Inr (JStr ''PAD'')"
  "subscript keymap ''map'' = Inr (JArr [JArr [JStr ''Button'', JStr ''1'', JStr ''key a'']])"
  by (simp_all add: keymap_def)

lemma parse_mapping_file_object:
  "load f = Some (JObj kvs) \<Longrightarrow>
     fst (parse_mapping_file load f st) =
       Inr (if {''name'', ''type'', ''map''} \<subseteq> fst ` set kvs then Some (JObj kvs) else None)"
  by (auto simp: parse_mapping_file_def split: bool.splits)

lemma parse_mapping_file_unreadable:
  "load f = None \<Longrightarrow>
     parse_mapping_file load f st
       = (Inr None, print (''Failed to parse file: '' @ path_str f) st)"
  by (simp add: parse_mapping_file_def)

lemma script_invalid_mapping_file:
  "f \<noteq> [] \<Longrightarrow> is_file f \<Longrightarrow> fst (parse_mapping_file load f st) = Inr None \<Longrightarrow>
     script True (Some f) locations is_file load run st
       = (Inr Exited, snd (parse_mapping_file load f st))"
  by (cases "parse_mapping_file load f st")
     (simp add: script_def find_mapping_file_def)

section \<open>The claims\<close>

subsection \<open>State Writer\<close>

text \<open>
  C10. For every rule the State Writer passes exactly the first three elements of the
  rule (property, parameter, expected value) to the external \<open>set\<close> command. When every
  rule has its three elements and the calls of the tool return, \<open>apply_map_\<close> raises
  nothing, and what it does is to run the tool, for each rule in the order of the
  document, on \<open>xsetwacom set <id>\<close> followed by the first three elements of the rule:
  the world it leaves is the world these calls make, one after the other, the trace
  gains exactly these calls, and nothing is read from the input. The fourth element, the
  label, is never transmitted and has no effect: on every tool, returning or not,
  cutting every rule down to three elements changes neither the result nor the calls
  nor the world.
\<close>

theorem apply_map_passes_first_three:
  "(\<forall>a \<in> set map'. 3 \<le> length a) \<Longrightarrow>
     apply_map (returning run) id' map' st =
       (Inr (),
        st\<lparr>world := foldl (\<lambda>w a. snd (run ([''xsetwacom'', ''set'', id'] @ take 3 a) w))
                       (world st) map',
           trace := trace st @ map (\<lambda>a. Run ([''xsetwacom'', ''set'', id'] @ take 3 a)) map'\<rparr>) \<and>
     apply_map tool id' (map (take 3) map') st = apply_map tool id' map' st"
  by (simp add: apply_map_eq apply_map_label)

theorem apply_map_passes_first_three_witness:
  "apply_map (returning (xsetwacom [])) ''7''
       [[''Button'', ''1'', ''key a'', ''undo''], [''Button'', ''2'', ''key b'']]
       \<lparr>world = [], stdin = [], trace = []\<rparr>
     = (Inr (),
        \<lparr>world = [((''Button'', ''2''), ''key b''), ((''Button'', ''1''), ''key a'')],
         stdin = [],
         trace = [Run [''xsetwacom'', ''set'', ''7'', ''Button'', ''1'', ''key a''],
                  Run [''xsetwacom'', ''set'', ''7'', ''Button'', ''2'', ''key b'']]\<rparr>) \<and>
   apply_map (returning (xsetwacom [])) ''7''
       [[''Button'', ''1'', ''key a''], [''Button'', ''2'', ''key b'']]
       \<lparr>world = [], stdin = [], trace = []\<rparr>
     = apply_map (returning (xsetwacom [])) ''7''
         [[''Button'', ''1'', ''key a'', ''undo''], [''Button'', ''2'', ''key b'']]
         \<lparr>world = [], stdin = [], trace = []\<rparr>"
  using apply_map_passes_first_three
    [of "[[''Button'', ''1'', ''key a'', ''undo''], [''Button'', ''2'', ''key b'']]"
        "xsetwacom []" "''7''" "\<lparr>world = [], stdin = [], trace = []\<rparr>"
        "returning (xsetwacom [])"]
  by (simp add: xsetwacom_def)

subsection \<open>Device Locator\<close>

text \<open>
  C5. For every device descriptor and every sequence of lines of the listing, the Device
  Locator returns the id of the first line that parses into the name and the type of the
  descriptor, both compared as strings, exactly and with case (no line before it parses
  into that name and that type); it returns \<open>None\<close> exactly when no line does, and what
  \<open>get_device_id_\<close> returns is that scan of the lines of the tool's output. When it
  returns \<open>None\<close> the script prints the descriptor and exits: the listing is the only
  call of the tool in the whole run, and the Reconciler does nothing. The claim is about
  a listing that was read: the call of the tool returns.
\<close>

theorem get_device_id_first_exact_match:
  "(scan_devices name type cs = Some i \<longleftrightarrow>
      (\<exists>pre c post. cs = pre @ c # post \<and> fullmatch device_matcher c = Some [name, i, type] \<and>
         (\<forall>x \<in> set pre. \<forall>i'. fullmatch device_matcher x \<noteq> Some [name, i', type]))) \<and>
   (scan_devices name type cs = None \<longleftrightarrow>
      (\<forall>c \<in> set cs. \<forall>i'. fullmatch device_matcher c \<noteq> Some [name, i', type])) \<and>
   fst (get_device_id (returning run) name type st) =
      Inr (scan_devices name type
             (splitlines (stdout (fst (run [''xsetwacom'', ''--list'', ''devices''] (world st)))))) \<and>
   (file \<noteq> [] \<and> is_file file \<and> load file = Some (JObj kvs) \<and>
    map_of kvs ''name'' = Some (JStr name) \<and> map_of kvs ''type'' = Some (JStr type) \<and>
    ''map'' \<in> fst ` set kvs \<and>
    fst (get_device_id (returning run) name type st) = Inr None \<longrightarrow>
      script True (Some file) locations is_file load (returning run) st =
        (Inr Exited,
         st\<lparr>world := snd (run [''xsetwacom'', ''--list'', ''devices''] (world st)),
            trace := trace st @ [Run [''xsetwacom'', ''--list'', ''devices''],
                       Print (''Couldn't find device: '' @ name @ '', type: '' @ type)]\<rparr>))"
proof -
  have g: "fst (get_device_id (returning run) name type st) =
      Inr (scan_devices name type
             (splitlines (stdout (fst (run [''xsetwacom'', ''--list'', ''devices''] (world st))))))"
    by (simp add: get_device_id_eq Let_def split: option.splits)
  show ?thesis
    using scan_devices_Some [of name type cs i] scan_devices_None [of name type cs] g
      script_device_not_found [of "file" is_file load kvs name type run st locations]
    by simp
qed

theorem get_device_id_first_exact_match_witness:
  "scan_devices ''Pad A'' ''PAD'' (splitlines listing) = Some ''12'' \<and>
   script True (Some ''keymap.json'') [] (\<lambda>p. True)
       (\<lambda>p. Some (JObj [(''name'', JStr ''Pad B''), (''type'', JStr ''PAD''), (''map'', JArr [])]))
       (returning (xsetwacom listing)) \<lparr>world = [], stdin = [], trace = []\<rparr>
     = (Inr Exited,
        \<lparr>world = [], stdin = [],
         trace = [Run [''xsetwacom'', ''--list'', ''devices''],
                  Print ''Couldn't find device: Pad B, type: PAD'']\<rparr>)"
proof -
  let ?st = "\<lparr>world = [] :: tablet, stdin = [], trace = []\<rparr>"
  let ?kvs = "[(''name'', JStr ''Pad B''), (''type'', JStr ''PAD''), (''map'', JArr [])]"
  have "splitlines listing = [''garbage'', ''pad a  id: 3  type: PAD''] @
      ''Pad A  id: 12  type: PAD  '' # [''Pad A id: 13 type: PAD''] \<and>
    fullmatch device_matcher ''Pad A  id: 12  type: PAD  '' = Some [''Pad A'', ''12'', ''PAD''] \<and>
    (\<forall>x \<in> set [''garbage'', ''pad a  id: 3  type: PAD'']. \<forall>i'.
       fullmatch device_matcher x \<noteq> Some [''Pad A'', i', ''PAD''])"
    by (simp add: splitlines_listing line1 line2 line3)
  then have first: "scan_devices ''Pad A'' ''PAD'' (splitlines listing) = Some ''12''"
    using get_device_id_first_exact_match
      [of "''Pad A''" "''PAD''" "splitlines listing" "''12''" "xsetwacom listing" ?st
          "''keymap.json''" "\<lambda>p. True" "\<lambda>p. Some (JObj ?kvs)" ?kvs "[]"]
    by blast
  note b = get_device_id_first_exact_match
      [of "''Pad B''" "''PAD''" "splitlines listing" "''12''" "xsetwacom listing" ?st
          "''keymap.json''" "\<lambda>p. True" "\<lambda>p. Some (JObj ?kvs)" ?kvs "[]"]
  have "\<forall>c \<in> set (splitlines listing). \<forall>i'. fullmatch device_matcher c \<noteq> Some [''Pad B'', i', ''PAD'']"
    by (simp add: splitlines_listing line1 line2 line3 line4)
  with b have "scan_devices ''Pad B'' ''PAD'' (splitlines listing) = None"
    by blast
  with b have "fst (get_device_id (returning (xsetwacom listing)) ''Pad B'' ''PAD'' ?st) = Inr None"
    by (simp add: listing_run)
  with b have "script True (Some ''keymap.json'') [] (\<lambda>p. True) (\<lambda>p. Some (JObj ?kvs))
      (returning (xsetwacom listing)) ?st =
        (Inr Exited,
         ?st\<lparr>world := snd (xsetwacom listing [''xsetwacom'', ''--list'', ''devices''] (world ?st)),
            trace := trace ?st @ [Run [''xsetwacom'', ''--list'', ''devices''],
                       Print (''Couldn't find device: '' @ ''Pad B'' @ '', type: '' @ ''PAD'')]\<rparr>)"
    by simp
  with first show ?thesis
    by (simp add: listing_run)
qed

text \<open>
  C6. A line of the listing that does not parse into name, id and type is skipped
  without error and without ending the scan: the Device Locator finds the same device
  (or none) as on the listing without the lines that do not parse.
\<close>

theorem scan_devices_skips_malformed:
  "scan_devices name type (filter (\<lambda>c. fullmatch device_matcher c \<noteq> None) cs)
     = scan_devices name type cs"
  by (rule scan_devices_filter)

subsection \<open>Checking\<close>

text \<open>
  C4. For every rule the Checking pass reports the rule as matched if and only if the
  observed value and the expected value are equal once leading and trailing whitespace
  is removed from both. When every rule has its three elements, \<open>check_map_\<close> returns
  whether all rules match, and between the header and the verdict it prints one row for
  each rule, in the order of the document: the \<open>YES\<close> row of the rule when the trimmed
  values are equal, the \<open>NO\<close> row otherwise; no \<open>YES\<close> row is a \<open>NO\<close> row. In the concrete
  instance the observed value \<open>"3 "\<close> matches the expected value \<open>"3"\<close>. The claim is
  about values that were observed: the calls of the tool return.
\<close>

theorem check_map_reports_trimmed_equality:
  "(\<forall>a \<in> set map'. 3 \<le> length a) \<Longrightarrow>
     fst (check_map (returning run) name type id' map' st) =
       Inr (list_all2 (\<lambda>out a. strip out = strip (a ! 2)) (observed run id' map' (world st)) map') \<and>
     prints (trace (snd (check_map (returning run) name type id' map' st))) =
       prints (trace st) @ [header name type] @
       map2 (\<lambda>out a. if strip out = strip (a ! 2) then yes_row a else no_row a out)
         (observed run id' map' (world st)) map' @
       [verdict (list_all2 (\<lambda>out a. strip out = strip (a ! 2))
                  (observed run id' map' (world st)) map')] \<and>
     (\<forall>a a' out. yes_row a \<noteq> no_row a' out)"
  using check_map_result [of map' run name type id' st]
    check_map_prints [of map' run name type id' st]
  by (simp add: all_match_def row_def [abs_def] yes_row_neq_no_row)

theorem check_map_reports_trimmed_equality_witness:
  "check_map (returning (xsetwacom [])) ''X'' ''PAD'' ''7'' [[''Button'', ''1'', ''3'']]
       \<lparr>world = [((''Button'', ''1''), ''3 '')], stdin = [], trace = []\<rparr>
     = (Inr True,
        \<lparr>world = [((''Button'', ''1''), ''3 '')], stdin = [],
         trace = [Print (header ''X'' ''PAD''), Run [''xsetwacom'', ''get'', ''7'', ''Button'', ''1''],
                  Print '' YES | Button |  1 | 3                        '', Print ''ALL GOOD!'']\<rparr>) \<and>
   prints (trace (snd (check_map (returning (xsetwacom [])) ''X'' ''PAD'' ''7'' [[''Button'', ''1'', ''3'']]
       \<lparr>world = [((''Button'', ''1''), ''3 '')], stdin = [], trace = []\<rparr>)))
     = [header ''X'' ''PAD'', yes_row [''Button'', ''1'', ''3''], verdict True]"
proof -
  have o: "observed (xsetwacom []) ''7'' [[''Button'', ''1'', ''3'']] [((''Button'', ''1''), ''3 '')] = [''3 '']"
    by (simp add: xsetwacom_def)
  have "check_map (returning (xsetwacom [])) ''X'' ''PAD'' ''7'' [[''Button'', ''1'', ''3'']]
       \<lparr>world = [((''Button'', ''1''), ''3 '')], stdin = [], trace = []\<rparr>
     = (Inr True,
        \<lparr>world = [((''Button'', ''1''), ''3 '')], stdin = [],
         trace = [Print (header ''X'' ''PAD''), Run [''xsetwacom'', ''get'', ''7'', ''Button'', ''1''],
                  Print '' YES | Button |  1 | 3                        '', Print ''ALL GOOD!'']\<rparr>)"
    by (simp add: check_map_def header_def subprocess_run_eq xsetwacom_def strip_3 print_def
          yes_row_def ljust_def rjust_def eval_nat_numeral)
  with o strip_3 check_map_reports_trimmed_equality
      [of "[[''Button'', ''1'', ''3'']]" "xsetwacom []" "''X''" "''PAD''" "''7''"
          "\<lparr>world = [((''Button'', ''1''), ''3 '')], stdin = [], trace = []\<rparr>"]
  show ?thesis
    by simp
qed




subsection \<open>Reconciler\<close>

text \<open>
  C2. For every mapping document in which the observed value of every rule equals its
  expected value after trimming, the Reconciler returns \<open>True\<close> on the first Checking
  pass, without prompting the user and without invoking the State Writer: the calls of
  the tool are the reads of the rules, one for each rule in the order of the document,
  no prompt is shown and no line of the input is read. The observed values are those of
  calls that return.
\<close>

theorem configure_map_converges_first_pass:
  "(\<forall>a \<in> set map'. 3 \<le> length a) \<Longrightarrow> all_match run id' map' (world st) \<Longrightarrow>
     fst (configure_map (returning run) name type id' map' st) = Inr True \<and>
     runs (trace (snd (configure_map (returning run) name type id' map' st))) =
       runs (trace st) @ map (\<lambda>a. [''xsetwacom'', ''get'', id', a ! 0, a ! 1]) map' \<and>
     prompts (trace (snd (configure_map (returning run) name type id' map' st))) = prompts (trace st) \<and>
     stdin (snd (configure_map (returning run) name type id' map' st)) = stdin st"
proof -
  assume ws: "\<forall>a \<in> set map'. 3 \<le> length a" and m: "all_match run id' map' (world st)"
  then have c: "configure_map (returning run) name type id' map' st
      = (Inr True, snd (check_map (returning run) name type id' map' st))"
    by (rule configure_map_converged)
  have "stdin (snd (check_map (returning run) name type id' map' st)) = stdin st"
    by (rule stdin_check_map [of "returning run" name type id' map' st
          "fst (check_map (returning run) name type id' map' st)"])
       simp
  with c ws show ?thesis
    by (simp add: check_map_runs check_map_prompts)
qed

theorem configure_map_converges_first_pass_witness:
  "fst (configure_map (returning (xsetwacom [])) ''X'' ''PAD'' ''7'' [[''Button'', ''1'', ''key a'', ''undo'']]
          \<lparr>world = [((''Button'', ''1''), ''key a'')], stdin = [''y''], trace = []\<rparr>)
     = Inr True \<and>
   runs (trace (snd (configure_map (returning (xsetwacom [])) ''X'' ''PAD'' ''7''
          [[''Button'', ''1'', ''key a'', ''undo'']]
          \<lparr>world = [((''Button'', ''1''), ''key a'')], stdin = [''y''], trace = []\<rparr>)))
     = [[''xsetwacom'', ''get'', ''7'', ''Button'', ''1'']] \<and>
   prompts (trace (snd (configure_map (returning (xsetwacom [])) ''X'' ''PAD'' ''7''
          [[''Button'', ''1'', ''key a'', ''undo'']]
          \<lparr>world = [((''Button'', ''1''), ''key a'')], stdin = [''y''], trace = []\<rparr>)))
     = [] \<and>
   stdin (snd (configure_map (returning (xsetwacom [])) ''X'' ''PAD'' ''7''
          [[''Button'', ''1'', ''key a'', ''undo'']]
          \<lparr>world = [((''Button'', ''1''), ''key a'')], stdin = [''y''], trace = []\<rparr>))
     = [''y'']"
proof -
  have "all_match (xsetwacom []) ''7'' [[''Button'', ''1'', ''key a'', ''undo'']]
      [((''Button'', ''1''), ''key a'')]"
    by (simp add: all_match_def xsetwacom_def strip_keys)
  then show ?thesis
    using configure_map_converges_first_pass
      [of "[[''Button'', ''1'', ''key a'', ''undo'']]" "xsetwacom []" "''7''"
          "\<lparr>world = [((''Button'', ''1''), ''key a'')], stdin = [''y''], trace = []\<rparr>"
          "''X''" "''PAD''"]
    by simp
qed

text \<open>
  C3. For every mapping document with at least one mismatched rule, when the user
  answers the prompt with \<open>n\<close> (after any number of answers that are neither \<open>y\<close> nor
  \<open>n\<close>), the Reconciler returns \<open>False\<close>; after the Checking pass the trace has prompts
  only, so there is no further State Reader or State Writer call (the calls of the whole
  run are the reads of the one Checking pass), and the world is as the Checking pass left
  it. The observed values are those of calls that return.
\<close>

theorem configure_map_decline_abandons:
  "(\<forall>a \<in> set map'. 3 \<le> length a) \<Longrightarrow> \<not> all_match run id' map' (world st) \<Longrightarrow>
   stdin st = junk @ ''n'' # rest \<Longrightarrow> (\<forall>b \<in> set junk. b \<noteq> ''y'' \<and> b \<noteq> ''n'') \<Longrightarrow>
     configure_map (returning run) name type id' map' st =
       (Inr False,
        (snd (check_map (returning run) name type id' map' st))
          \<lparr>stdin := rest,
           trace := trace (snd (check_map (returning run) name type id' map' st))
                    @ replicate (Suc (length junk)) (Input prompt)\<rparr>) \<and>
     runs (trace (snd (configure_map (returning run) name type id' map' st))) =
       runs (trace st) @ map (\<lambda>a. [''xsetwacom'', ''get'', id', a ! 0, a ! 1]) map' \<and>
     world (snd (configure_map (returning run) name type id' map' st)) =
       world (snd (check_map (returning run) name type id' map' st))"
proof -
  assume ws: "\<forall>a \<in> set map'. 3 \<le> length a" and m: "\<not> all_match run id' map' (world st)"
    and i: "stdin st = junk @ ''n'' # rest" and j: "\<forall>b \<in> set junk. b \<noteq> ''y'' \<and> b \<noteq> ''n''"
  have r: "runs (replicate n (Input p)) = []" for n p
    by (induction n) simp_all
  from ws m i j have "configure_map (returning run) name type id' map' st =
       (Inr False,
        (snd (check_map (returning run) name type id' map' st))
          \<lparr>stdin := rest,
           trace := trace (snd (check_map (returning run) name type id' map' st))
                    @ replicate (Suc (length junk)) (Input prompt)\<rparr>)"
    by (rule configure_map_decline)
  with ws show ?thesis
    by (simp add: runs_append check_map_runs r)
qed

theorem configure_map_decline_abandons_witness:
  "configure_map (returning (xsetwacom [])) ''X'' ''PAD'' ''7'' [[''Button'', ''1'', ''key a'']]
       \<lparr>world = [((''Button'', ''1''), ''key b'')], stdin = [''maybe'', ''n'', ''y''], trace = []\<rparr>
     = (Inr False,
        \<lparr>world = [((''Button'', ''1''), ''key b'')], stdin = [''y''],
         trace = [Print (header ''X'' ''PAD''), Run [''xsetwacom'', ''get'', ''7'', ''Button'', ''1''],
                  Print ''> NO | Button 1 = key b | SHOULD BE: key a'',
                  Print ''MAPPING DID NOT MATCH!'', Input prompt, Input prompt]\<rparr>)"
proof -
  have "\<not> all_match (xsetwacom []) ''7'' [[''Button'', ''1'', ''key a'']] [((''Button'', ''1''), ''key b'')]"
    by (simp add: all_match_def xsetwacom_def strip_keys)
  then have "configure_map (returning (xsetwacom [])) ''X'' ''PAD'' ''7'' [[''Button'', ''1'', ''key a'']]
       \<lparr>world = [((''Button'', ''1''), ''key b'')], stdin = [''maybe'', ''n'', ''y''], trace = []\<rparr>
     = (Inr False,
        (snd (check_map (returning (xsetwacom [])) ''X'' ''PAD'' ''7'' [[''Button'', ''1'', ''key a'']]
           \<lparr>world = [((''Button'', ''1''), ''key b'')], stdin = [''maybe'', ''n'', ''y''], trace = []\<rparr>))
          \<lparr>stdin := [''y''],
           trace := trace (snd (check_map (returning (xsetwacom [])) ''X'' ''PAD'' ''7'' [[''Button'', ''1'', ''key a'']]
             \<lparr>world = [((''Button'', ''1''), ''key b'')], stdin = [''maybe'', ''n'', ''y''], trace = []\<rparr>))
                    @ replicate (Suc (length [''maybe''])) (Input prompt)\<rparr>)"
    using configure_map_decline_abandons
      [of "[[''Button'', ''1'', ''key a'']]" "xsetwacom []" "''7''"
          "\<lparr>world = [((''Button'', ''1''), ''key b'')], stdin = [''maybe'', ''n'', ''y''], trace = []\<rparr>"
          "[''maybe'']" "[''y'']" "''X''" "''PAD''"]
    by simp
  then show ?thesis
    by (simp add: check_map_key_b)
qed

text \<open>
  C1. The claim is that accepting the prompt invokes the State Writer once for every
  rule and then checks again. \<open>configure_map_\<close> calls \<open>apply_map_\<close> with the keywords
  \<open>name_\<close> and \<open>type_\<close>, which \<open>apply_map_\<close> does not take, so the call raises \<open>TypeError\<close>
  before the body of \<open>apply_map_\<close> runs. In the end-to-end scenario of the specification
  (device \<open>X\<close> of type \<open>PAD\<close> with id 7, one rule, the observed value \<open>key b\<close> against the
  expected \<open>key a\<close>) and the answer \<open>y\<close>, the script ends with \<open>TypeError\<close>; the trace has
  the listing, one read and the prompt: no \<open>set\<close> call and no second Checking pass.
\<close>

theorem script_accept_raises_TypeError:
  "script True (Some ''keymap.json'') [] (\<lambda>p. True) (\<lambda>p. Some keymap)
       (returning (xsetwacom listing_X))
       \<lparr>world = [((''Button'', ''1''), ''key b'')], stdin = [''y''], trace = []\<rparr>
     = (Inl TypeError,
        \<lparr>world = [((''Button'', ''1''), ''key b'')], stdin = [],
         trace = [Run [''xsetwacom'', ''--list'', ''devices''],
                  Print (header ''X'' ''PAD''),
                  Run [''xsetwacom'', ''get'', ''7'', ''Button'', ''1''],
                  Print ''> NO | Button 1 = key b | SHOULD BE: key a'',
                  Print ''MAPPING DID NOT MATCH!'',
                  Input prompt]\<rparr>)"
proof -
  let ?st = "\<lparr>world = [((''Button'', ''1''), ''key b'')], stdin = [''y''],
               trace = [Run [''xsetwacom'', ''--list'', ''devices'']]\<rparr>"
  have "\<not> all_match (xsetwacom listing_X) ''7''
           [[''Button'', ''1'', ''key a'']] (world ?st)"
    by (simp add: all_match_def xsetwacom_def strip_keys)
  then have "configure_map (returning (xsetwacom listing_X)) ''X'' ''PAD'' ''7''
      [[''Button'', ''1'', ''key a'']] ?st
     = (Inl TypeError,
        \<lparr>world = [((''Button'', ''1''), ''key b'')], stdin = [],
         trace = [Run [''xsetwacom'', ''--list'', ''devices''],
                  Print (header ''X'' ''PAD''),
                  Run [''xsetwacom'', ''get'', ''7'', ''Button'', ''1''],
                  Print ''> NO | Button 1 = key b | SHOULD BE: key a'',
                  Print ''MAPPING DID NOT MATCH!'',
                  Input prompt]\<rparr>)"
    using configure_map_accept
      [of "[[''Button'', ''1'', ''key a'']]" "xsetwacom listing_X" "''7''"
          ?st "[]" "[]" "''X''" "''PAD''"]
    by (simp add: check_map_key_b)
  then show ?thesis
    by (simp add: script_def find_mapping_file_def parse_keymap get_device_id_X keymap_fields
          bind_get_device_id bind_configure_map)
qed

text \<open>
  C9. The claim is that an answer other than \<open>y\<close> or \<open>n\<close> leads to the prompt again and
  that the loop ends only by returning \<open>True\<close> or \<open>False\<close>. The first half holds
  (\<open>ask_reprompt\<close>: nothing but the prompt is added to the trace). The second half fails
  on the answer \<open>y\<close>, for the reason given under C1: after two answers that are neither
  \<open>y\<close> nor \<open>n\<close> and the answer \<open>y\<close>, the Reconciler ends with \<open>TypeError\<close>, which is neither
  of the two results, and the line \<open>n\<close> is never read.
\<close>

theorem configure_map_reprompt_then_TypeError:
  "configure_map (returning (xsetwacom [])) ''X'' ''PAD'' ''7'' [[''Button'', ''1'', ''key a'']]
       \<lparr>world = [((''Button'', ''1''), ''key b'')], stdin = [''maybe'', ''Y'', ''y'', ''n''], trace = []\<rparr>
     = (Inl TypeError,
        \<lparr>world = [((''Button'', ''1''), ''key b'')], stdin = [''n''],
         trace = [Print (header ''X'' ''PAD''),
                  Run [''xsetwacom'', ''get'', ''7'', ''Button'', ''1''],
                  Print ''> NO | Button 1 = key b | SHOULD BE: key a'',
                  Print ''MAPPING DID NOT MATCH!'',
                  Input prompt, Input prompt, Input prompt]\<rparr>)"
proof -
  let ?st = "\<lparr>world = [((''Button'', ''1''), ''key b'')], stdin = [''maybe'', ''Y'', ''y'', ''n''],
               trace = []\<rparr>"
  have "\<not> all_match (xsetwacom []) ''7'' [[''Button'', ''1'', ''key a'']] (world ?st)"
    by (simp add: all_match_def xsetwacom_def strip_keys)
  then show ?thesis
    using configure_map_accept
      [of "[[''Button'', ''1'', ''key a'']]" "xsetwacom []" "''7''"
          ?st "[''maybe'', ''Y'']" "[''n'']" "''X''" "''PAD''"]
    by (simp add: check_map_key_b)
qed

subsection \<open>Mapping Source\<close>

text \<open>
  C7. The claim is that the Mapping Source returns the document exactly when the file
  can be read, deserializes and has the three fields, and returns \<open>None\<close> otherwise. That
  holds of a file that cannot be read or parsed and of a JSON object
  (\<open>parse_mapping_file_unreadable\<close>, \<open>parse_mapping_file_object\<close>), and the script then
  exits (\<open>script_invalid_mapping_file\<close>). It fails when the file holds a JSON value that
  is no object: on \<open>null\<close> the test \<open>"name" in _a\<close>, which stands outside the \<open>try\<close>,
  raises \<open>TypeError\<close>, and so does the script; and the list \<open>["name", "type", "map"]\<close>,
  which has no field at all, is returned.
\<close>

theorem parse_mapping_file_not_a_dict:
  "parse_mapping_file (\<lambda>p. Some JNull) ''keymap.json'' st = (Inl TypeError, st) \<and>
   script True (Some ''keymap.json'') [] (\<lambda>p. True) (\<lambda>p. Some JNull) run st = (Inl TypeError, st) \<and>
   parse_mapping_file (\<lambda>p. Some (JArr [JStr ''name'', JStr ''type'', JStr ''map''])) ''keymap.json'' st
     = (Inr (Some (JArr [JStr ''name'', JStr ''type'', JStr ''map''])), st)"
  by (simp add: parse_mapping_file_def script_def find_mapping_file_def)

end
